theory Spec2Isabelle
  imports Main
begin

section \<open>The api package: wire types and value decoding\<close>

text \<open>
  Go's \<^verbatim>\<open>[]byte\<close> and \<^verbatim>\<open>json.RawMessage\<close> are byte strings; \<^verbatim>\<open>int\<close> values are only
  compared, stored and printed by this code, so they are unbounded integers here.
\<close>

type_synonym bytes = string

text \<open>An error value produced by the encoding/json package; its text is opaque to this code.\<close>

datatype json_error = JsonError string

text \<open>The two errors a context reports from \<^verbatim>\<open>ctx.Err()\<close>.\<close>

datatype ctx_error = Canceled | DeadlineExceeded

text \<open>
  One constructor for each place where the source builds or forwards an error; the
  arguments are the values the source formats into the message.
\<close>

datatype error =
    ErrNodeNotFound string
  | ErrNoProperty int string
  | ErrNoAttribute string string
  | ErrJson json_error
  | ErrPublish string
  | ErrCtx ctx_error
  | ErrWriteNotSuccessful string
  | ErrParseGetNodes json_error
  | ErrUnsuccessfulGetNodes
  | ErrDuplicateNodeName string
  | ErrParseValue string json_error
  | ErrParseBool bytes string json_error
  | ErrUnknownValueType string
  | ErrArgsLength nat
  | ErrDataLength nat
  | ErrUpdateValueNotFound string

definition TypeNumber :: string where "TypeNumber = ''number''"
definition TypeBool :: string where "TypeBool = ''boolean''"
definition TypeString :: string where "TypeString = ''string''"
definition TypeListNumber :: string where "TypeListNumber = ''number[]''"
definition TypeListBool :: string where "TypeListBool = ''boolean[]''"
definition TypeListString :: string where "TypeListString = ''string[]''"
definition TypeDuration :: string where "TypeDuration = ''duration''"
definition TypeColor :: string where "TypeColor = ''color''"
definition TypeAny :: string where "TypeAny = ''any''"

definition DurationSeconds :: string where "DurationSeconds = ''seconds''"
definition DurationMinutes :: string where "DurationMinutes = ''minutes''"

text \<open>\<^verbatim>\<open>time.Duration\<close> counts nanoseconds.\<close>

definition Second :: int where "Second = 1000000000"
definition Minute :: int where "Minute = 60 * Second"

subsection \<open>StringInt\<close>

record StringInt =
  s :: string
  i :: int

definition digit_char :: "nat \<Rightarrow> char" where
  "digit_char d = ''0123456789'' ! d"

fun nat_digits :: "nat \<Rightarrow> string" where
  "nat_digits n = (if n < 10 then [digit_char n] else nat_digits (n div 10) @ [digit_char (n mod 10)])"

declare nat_digits.simps [simp del]

text \<open>\<^verbatim>\<open>strconv.Itoa\<close>: the decimal form, with a minus sign for a negative number.\<close>

definition Itoa :: "int \<Rightarrow> string" where
  "Itoa n = (if n < 0 then CHR ''-'' # nat_digits (nat (- n)) else nat_digits (nat n))"

definition StringInt_String :: "StringInt \<Rightarrow> string" where
  "StringInt_String x = (if s x \<noteq> [] then s x else Itoa (i x))"

subsection \<open>Value, ValueID and Node\<close>

text \<open>
  Of the fields of \<^verbatim>\<open>api.Value\<close> and \<^verbatim>\<open>api.Node\<close>, the ones the code reads are modelled;
  the others are only carried along by the decoder.
\<close>

record Value =
  v_ID :: string
  v_NodeID :: int
  v_CommandClass :: int
  v_Endpoint :: int
  v_Property :: StringInt
  v_Type :: string
  v_RawValue :: bytes

record ValueID =
  vid_NodeID :: int
  vid_CommandClass :: int
  vid_Endpoint :: int
  vid_Property :: string

text \<open>
  \<^verbatim>\<open>Node.Values\<close> is a Go map. It is kept as the list of its entries in the order in
  which \<^verbatim>\<open>range\<close> visits them, which the Go runtime chooses; a key lookup is \<open>map_of\<close>.
\<close>

record api_Node =
  n_ID :: int
  n_Name :: string
  n_Failed :: bool
  n_Values :: "(string \<times> Value) list"

record GetNodesResp =
  gn_Success :: bool
  gn_Message :: string
  gn_Result :: "api_Node list"

record WriteValueResp =
  wr_Success :: bool
  wr_Message :: string
  wr_ValueID :: ValueID
  wr_Value :: bytes

text \<open>The Go value behind the \<^verbatim>\<open>interface{}\<close> that \<^verbatim>\<open>Value.Value\<close> returns.\<close>

datatype val = VInt int | VBool bool | VString string | VDuration int | VRaw bytes

subsection \<open>The encoding/json package\<close>

text \<open>
  encoding/json is not part of the repository. Each use the code makes of
  \<^verbatim>\<open>json.Unmarshal\<close> and \<^verbatim>\<open>json.Marshal\<close> is a field of this record: the function from
  the input bytes to the error or to the value left in the (zero-initialised) target.
  The decoder of a \<^verbatim>\<open>Value\<close> or of the delta calls \<^verbatim>\<open>StringInt.UnmarshalJSON\<close> for the
  property; that call is inside these functions.
\<close>

record update_obj =
  u_CommandClass :: int
  u_Endpoint :: int
  u_Property :: StringInt
  u_PropertyKey :: string

record resp_obj =
  o_Success :: bool
  o_Message :: string
  o_Args :: "bytes list"

record json =
  unmarshal_int :: "bytes \<Rightarrow> json_error + int"
  unmarshal_bool :: "bytes \<Rightarrow> json_error + bool"
  unmarshal_string :: "bytes \<Rightarrow> json_error + string"
  unmarshal_unit :: "bytes \<Rightarrow> json_error + string"
  unmarshal_GetNodesResp :: "bytes \<Rightarrow> json_error + GetNodesResp"
  unmarshal_resp_obj :: "bytes \<Rightarrow> json_error + resp_obj"
  unmarshal_ValueID :: "bytes \<Rightarrow> json_error + ValueID"
  unmarshal_data_obj :: "bytes \<Rightarrow> json_error + bytes list"
  unmarshal_Node :: "bytes \<Rightarrow> json_error + api_Node"
  unmarshal_update_obj :: "bytes \<Rightarrow> json_error + update_obj"
  marshal_APIArgs :: "ValueID \<times> bytes \<Rightarrow> json_error + bytes"

subsection \<open>Value.Value\<close>

definition Value_Value :: "json \<Rightarrow> Value \<Rightarrow> error + val" where
  "Value_Value j v =
    (if v_Type v = TypeNumber then
       (if length (v_RawValue v) > 0 then
          (case unmarshal_int j (v_RawValue v) of
             Inl e \<Rightarrow> Inl (ErrParseValue (v_Type v) e)
           | Inr tv \<Rightarrow> Inr (VInt tv))
        else Inr (VInt 0))
     else if v_Type v = TypeBool then
       (if length (v_RawValue v) > 0 then
          (case unmarshal_bool j (v_RawValue v) of
             Inl e \<Rightarrow> Inl (ErrParseBool (v_RawValue v) (v_Type v) e)
           | Inr tv \<Rightarrow> Inr (VBool tv))
        else Inr (VBool False))
     else if v_Type v = TypeString \<or> v_Type v = TypeColor then
       (case unmarshal_string j (v_RawValue v) of
          Inl e \<Rightarrow> Inl (ErrParseValue (v_Type v) e)
        | Inr tv \<Rightarrow> Inr (VString tv))
     else if v_Type v = TypeDuration then
       (case unmarshal_unit j (v_RawValue v) of
          Inl e \<Rightarrow> Inl (ErrParseValue (v_Type v) e)
        | Inr unit \<Rightarrow>
            (if unit = DurationSeconds then Inr (VDuration Second)
             else if unit = DurationMinutes then Inr (VDuration Minute)
             else Inr (VDuration 0)))
     else if v_Type v = TypeAny then Inr (VRaw (v_RawValue v))
     else Inl (ErrUnknownValueType (v_Type v)))"

subsection \<open>Value.WriteValue\<close>

text \<open>
  \<^verbatim>\<open>APIArgs.Args\<close> holds two elements: the \<^verbatim>\<open>ValueID\<close> and the caller's value. The
  caller's value is only marshalled, so it is kept as the bytes it stands for.
\<close>

definition Value_WriteValue :: "Value \<Rightarrow> bytes \<Rightarrow> ValueID \<times> bytes" where
  "Value_WriteValue v val =
    (\<lparr>vid_NodeID = v_NodeID v, vid_CommandClass = v_CommandClass v,
      vid_Endpoint = v_Endpoint v, vid_Property = StringInt_String (v_Property v)\<rparr>, val)"

subsection \<open>WriteValueResp.UnmarshalJSON\<close>

definition WriteValueResp_UnmarshalJSON :: "json \<Rightarrow> bytes \<Rightarrow> error + WriteValueResp" where
  "WriteValueResp_UnmarshalJSON j b =
    (case unmarshal_resp_obj j b of
       Inl e \<Rightarrow> Inl (ErrJson e)
     | Inr obj \<Rightarrow>
         (if length (o_Args obj) \<noteq> 2 then Inl (ErrArgsLength (length (o_Args obj)))
          else
            (case unmarshal_ValueID j (o_Args obj ! 0) of
               Inl e \<Rightarrow> Inl (ErrJson e)
             | Inr vid \<Rightarrow>
                 Inr \<lparr>wr_Success = o_Success obj, wr_Message = o_Message obj,
                      wr_ValueID = vid, wr_Value = o_Args obj ! 1\<rparr>)))"

subsection \<open>NodeValueUpdate.UnmarshalJSON\<close>

text \<open>The identifier built by \<^verbatim>\<open>fmt.Sprintf("%d-%d-%s", ...)\<close> and the optional suffix.\<close>

definition update_id :: "update_obj \<Rightarrow> string" where
  "update_id u =
    (let id = Itoa (u_CommandClass u) @ ''-'' @ Itoa (u_Endpoint u) @ ''-'' @
              StringInt_String (u_Property u)
     in if u_PropertyKey u \<noteq> [] then id @ ''-'' @ u_PropertyKey u else id)"

text \<open>\<^verbatim>\<open>NodeValueUpdate\<close> embeds a \<^verbatim>\<open>Value\<close> and nothing else, so it is a \<open>Value\<close>.\<close>

definition NodeValueUpdate_UnmarshalJSON :: "json \<Rightarrow> bytes \<Rightarrow> error + Value" where
  "NodeValueUpdate_UnmarshalJSON j b =
    (case unmarshal_data_obj j b of
       Inl e \<Rightarrow> Inl (ErrJson e)
     | Inr data \<Rightarrow>
         (if length data \<noteq> 2 then Inl (ErrDataLength (length data))
          else
            (case unmarshal_Node j (data ! 0) of
               Inl e \<Rightarrow> Inl (ErrJson e)
             | Inr node \<Rightarrow>
                 (case unmarshal_update_obj j (data ! 1) of
                    Inl e \<Rightarrow> Inl (ErrJson e)
                  | Inr update \<Rightarrow>
                      (case map_of (n_Values node) (update_id update) of
                         None \<Rightarrow> Inl (ErrUpdateValueNotFound (update_id update))
                       | Some value \<Rightarrow> Inr value)))))"

section \<open>The Broker\<close>

text \<open>
  The Go objects that the broker shares by reference live in stores indexed by a
  reference (a natural number): the \<^verbatim>\<open>*Node\<close> objects that both directory maps point
  to, the inner watcher maps \<^verbatim>\<open>map[chan<- interface{}]struct{}\<close> that a cancel
  function keeps hold of, and the completion channels \<^verbatim>\<open>chan error\<close> of capacity 1.
  \<open>nextRef\<close> is the next unused reference: \<^verbatim>\<open>make\<close> and \<^verbatim>\<open>&node\<close> take it and advance it.
  A channel handed in by a caller (a sink) is identified by a natural number too.
\<close>

record Node =
  node :: api_Node
  valuesByProperty :: "string \<rightharpoonup> Value"
  valuesByID :: "string \<rightharpoonup> Value"
  valueWatchers :: "string \<rightharpoonup> nat"

record Broker =
  setAttr :: "ValueID \<rightharpoonup> nat"
  nodesByName :: "string \<rightharpoonup> nat"
  nodesByID :: "int \<rightharpoonup> nat"
  nodeHeap :: "nat \<Rightarrow> Node"
  watcherHeap :: "nat \<Rightarrow> nat set"
  chanHeap :: "nat \<Rightarrow> error option list"
  nextRef :: nat

definition emptyNode :: Node where
  "emptyNode = \<lparr>node = \<lparr>n_ID = 0, n_Name = [], n_Failed = False, n_Values = []\<rparr>,
                valuesByProperty = Map.empty, valuesByID = Map.empty, valueWatchers = Map.empty\<rparr>"

definition NewBroker :: Broker where
  "NewBroker = \<lparr>setAttr = Map.empty, nodesByName = Map.empty, nodesByID = Map.empty,
                nodeHeap = (\<lambda>_. emptyNode), watcherHeap = (\<lambda>_. {}), chanHeap = (\<lambda>_. []),
                nextRef = 0\<rparr>"

subsection \<open>handleGetNodesResp\<close>

text \<open>The loop over \<^verbatim>\<open>n.Values\<close> that fills the two value maps of a new node.\<close>

fun fill_values :: "(string \<times> Value) list \<Rightarrow> Node \<Rightarrow> Node" where
  "fill_values [] nd = nd"
| "fill_values ((k, v) # vs) nd =
     fill_values vs
       (nd\<lparr>valuesByProperty := (valuesByProperty nd)(StringInt_String (v_Property v) \<mapsto> v),
           valuesByID := (valuesByID nd)(v_ID v \<mapsto> v)\<rparr>)"

definition newNode :: "api_Node \<Rightarrow> Node" where
  "newNode n =
    fill_values (n_Values n)
      \<lparr>node = n, valuesByProperty = Map.empty, valuesByID = Map.empty,
       valueWatchers = Map.empty\<rparr>"

text \<open>
  The loop over \<^verbatim>\<open>resp.Result\<close>: a failed node is skipped, a name already in
  \<open>nodesByName\<close> ends the loop with an error, and otherwise \<open>store_node\<close> puts the
  node at a new reference, under its name when that is not empty and under its id.
\<close>

definition store_node :: "Broker \<Rightarrow> api_Node \<Rightarrow> Broker" where
  "store_node b n =
     b\<lparr>nodeHeap := (nodeHeap b)(nextRef b := newNode n),
       nodesByName := (if n_Name n \<noteq> [] then (nodesByName b)(n_Name n \<mapsto> nextRef b)
                       else nodesByName b),
       nodesByID := (nodesByID b)(n_ID n \<mapsto> nextRef b),
       nextRef := Suc (nextRef b)\<rparr>"

fun install_nodes :: "Broker \<Rightarrow> api_Node list \<Rightarrow> error option \<times> Broker" where
  "install_nodes b [] = (None, b)"
| "install_nodes b (n # ns) =
     (if n_Failed n then install_nodes b ns
      else if nodesByName b (n_Name n) \<noteq> None then (Some (ErrDuplicateNodeName (n_Name n)), b)
      else install_nodes (store_node b n) ns)"

text \<open>The two loops that delete every key of the directory maps.\<close>

definition clear_nodes :: "Broker \<Rightarrow> Broker" where
  "clear_nodes b = b\<lparr>nodesByName := Map.empty, nodesByID := Map.empty\<rparr>"

text \<open>
  The result is the error the handler returns (\<open>None\<close> for \<^verbatim>\<open>nil\<close>) and the broker
  afterwards. The same error is offered on the channel \<^verbatim>\<open>gotNodes\<close> without waiting,
  where a call of \<^verbatim>\<open>GetNodes\<close> that is waiting takes it and returns it.
\<close>

definition handleGetNodesResp :: "json \<Rightarrow> bytes \<Rightarrow> Broker \<Rightarrow> error option \<times> Broker" where
  "handleGetNodesResp j payload b =
    (case unmarshal_GetNodesResp j payload of
       Inl e \<Rightarrow> (Some (ErrParseGetNodes e), b)
     | Inr resp \<Rightarrow>
         (if \<not> gn_Success resp then (Some ErrUnsuccessfulGetNodes, b)
          else install_nodes (clear_nodes b) (gn_Result resp)))"

subsection \<open>WatchValue and the cancel function\<close>

text \<open>
  The cancel function is a closure over the inner watcher map \<open>w\<close> and the sink \<open>v\<close>;
  it is the pair of the two, and \<open>run_cancel\<close> is a call of it.
\<close>

definition WatchValue ::
  "Broker \<Rightarrow> string \<Rightarrow> string \<Rightarrow> nat \<Rightarrow> error + ((nat \<times> nat) \<times> Broker)" where
  "WatchValue b nodeName property v =
    (case nodesByName b nodeName of
       None \<Rightarrow> Inl (ErrNodeNotFound nodeName)
     | Some r \<Rightarrow>
         (let n = nodeHeap b r in
          if valuesByProperty n property = None
          then Inl (ErrNoProperty (n_ID (node n)) property)
          else
            (case valueWatchers n property of
               None \<Rightarrow>
                 (let w = nextRef b;
                      b1 = b\<lparr>watcherHeap := (watcherHeap b)(w := {}),
                             nodeHeap := (nodeHeap b)
                               (r := n\<lparr>valueWatchers := (valueWatchers n)(property \<mapsto> w)\<rparr>),
                             nextRef := Suc w\<rparr>
                  in Inr ((w, v),
                          b1\<lparr>watcherHeap := (watcherHeap b1)(w := insert v (watcherHeap b1 w))\<rparr>))
             | Some w \<Rightarrow>
                 Inr ((w, v),
                      b\<lparr>watcherHeap := (watcherHeap b)(w := insert v (watcherHeap b w))\<rparr>))))"

definition run_cancel :: "nat \<times> nat \<Rightarrow> Broker \<Rightarrow> Broker" where
  "run_cancel c b =
    b\<lparr>watcherHeap := (watcherHeap b)(fst c := watcherHeap b (fst c) - {snd c})\<rparr>"

subsection \<open>handleNodeValueUpdated\<close>

text \<open>
  The handler only reads the broker. Its effect is the set of sends that go through:
  \<open>ready c\<close> says whether the sink \<open>c\<close> can take a value at that moment, and a sink
  that cannot is passed over by the \<^verbatim>\<open>default\<close> branch. The result is the error, or
  (with \<^verbatim>\<open>nil\<close> returned) the set of deliveries made, each a sink and the value sent.
\<close>

definition handleNodeValueUpdated ::
  "json \<Rightarrow> (nat \<Rightarrow> bool) \<Rightarrow> bytes \<Rightarrow> Broker \<Rightarrow> error + (nat \<times> val) set" where
  "handleNodeValueUpdated j ready payload b =
    (case NodeValueUpdate_UnmarshalJSON j payload of
       Inl e \<Rightarrow> Inl e
     | Inr update \<Rightarrow>
         (case Value_Value j update of
            Inl e \<Rightarrow> Inl e
          | Inr val \<Rightarrow>
              (case nodesByID b (v_NodeID update) of
                 None \<Rightarrow> Inr {}
               | Some r \<Rightarrow>
                   (case valueWatchers (nodeHeap b r) (StringInt_String (v_Property update)) of
                      None \<Rightarrow> Inr {}
                    | Some w \<Rightarrow> Inr ((\<lambda>c. (c, val)) ` {c \<in> watcherHeap b w. ready c})))))"

subsection \<open>SetAttr\<close>

text \<open>
  \<open>SetAttr\<close> runs in three critical sections with the publish and the \<^verbatim>\<open>select\<close>
  between them; other goroutines may run between any two of them. Each part is a
  function of its own, and \<open>SetAttr\<close> below puts them together.

  \<open>SetAttr_register\<close> is the first critical section: it resolves the node and the
  property, builds the message, and stores a new channel of capacity 1 under the
  \<open>ValueID\<close>. The type assertion on \<^verbatim>\<open>msg.Args[0]\<close> cannot fail, since \<open>Value_WriteValue\<close>
  puts a \<open>ValueID\<close> there. It gives the broker, the key, the payload and the channel.
  The mutex itself is not part of the model: each function here is one critical
  section. (When \<^verbatim>\<open>json.Marshal\<close> fails the source returns without unlocking.)
\<close>

definition SetAttr_register ::
  "json \<Rightarrow> Broker \<Rightarrow> string \<Rightarrow> string \<Rightarrow> bytes \<Rightarrow> error + (Broker \<times> ValueID \<times> bytes \<times> nat)" where
  "SetAttr_register j b nodeName property value =
    (case nodesByName b nodeName of
       None \<Rightarrow> Inl (ErrNodeNotFound nodeName)
     | Some r \<Rightarrow>
         (case valuesByProperty (nodeHeap b r) property of
            None \<Rightarrow> Inl (ErrNoAttribute nodeName property)
          | Some v \<Rightarrow>
              (let msg = Value_WriteValue v value; vid = fst msg in
               case marshal_APIArgs j msg of
                 Inl e \<Rightarrow> Inl (ErrJson e)
               | Inr payload \<Rightarrow>
                   (let wait = nextRef b in
                    Inr (b\<lparr>chanHeap := (chanHeap b)(wait := []),
                           setAttr := (setAttr b)(vid \<mapsto> wait),
                           nextRef := Suc wait\<rparr>,
                         vid, payload, wait)))))"

text \<open>The deferred function: it deletes the key, whatever is stored under it.\<close>

definition SetAttr_cleanup :: "Broker \<Rightarrow> ValueID \<Rightarrow> Broker" where
  "SetAttr_cleanup b vid = b\<lparr>setAttr := (setAttr b)(vid := None)\<rparr>"

text \<open>
  The \<^verbatim>\<open>select\<close>. \<open>done\<close> is the context's error when the context is done. With both
  cases ready Go picks one at random: \<open>pick_ctx\<close> is that choice. With neither ready
  the call waits: \<open>None\<close>.
\<close>

definition SetAttr_select ::
  "ctx_error option \<Rightarrow> bool \<Rightarrow> Broker \<Rightarrow> nat \<Rightarrow> (error option \<times> Broker) option" where
  "SetAttr_select done pick_ctx b wait =
    (case chanHeap b wait of
       [] \<Rightarrow> (case done of None \<Rightarrow> None | Some ce \<Rightarrow> Some (Some (ErrCtx ce), b))
     | err # rest \<Rightarrow>
         (case done of
            None \<Rightarrow> Some (err, b\<lparr>chanHeap := (chanHeap b)(wait := rest)\<rparr>)
          | Some ce \<Rightarrow>
              (if pick_ctx then Some (Some (ErrCtx ce), b)
               else Some (err, b\<lparr>chanHeap := (chanHeap b)(wait := rest)\<rparr>))))"

text \<open>
  What surrounds one call: what \<^verbatim>\<open>Publish\<close> returns, what the other goroutines do to
  the broker between the first critical section and the \<^verbatim>\<open>select\<close>, and between the
  \<^verbatim>\<open>select\<close> and the deferred function, and the state of the context.
\<close>

record call_env =
  pub :: "error option"
  during :: "Broker \<Rightarrow> Broker"
  before_cleanup :: "Broker \<Rightarrow> Broker"
  ctx_done :: "ctx_error option"
  pick_ctx :: bool

definition TopicWriteValueSet :: string where
  "TopicWriteValueSet = ''_CLIENTS/ZWAVE_GATEWAY/api/writeValue/set''"

text \<open>
  The whole call: what it returns (\<open>None\<close> when it waits for ever, \<open>Some None\<close> for
  \<^verbatim>\<open>nil\<close>), the broker afterwards, and the calls of \<^verbatim>\<open>Publish\<close> it made.
\<close>

definition SetAttr ::
  "json \<Rightarrow> call_env \<Rightarrow> Broker \<Rightarrow> string \<Rightarrow> string \<Rightarrow> bytes
     \<Rightarrow> error option option \<times> Broker \<times> (string \<times> bytes) list" where
  "SetAttr j env b nodeName property value =
    (case SetAttr_register j b nodeName property value of
       Inl e \<Rightarrow> (Some (Some e), b, [])
     | Inr (b1, vid, payload, wait) \<Rightarrow>
         (case pub env of
            Some e \<Rightarrow>
              (Some (Some e), SetAttr_cleanup (before_cleanup env b1) vid,
               [(TopicWriteValueSet, payload)])
          | None \<Rightarrow>
              (case SetAttr_select (ctx_done env) (pick_ctx env) (during env b1) wait of
                 None \<Rightarrow> (None, during env b1, [(TopicWriteValueSet, payload)])
               | Some (r, b2) \<Rightarrow>
                   (Some r, SetAttr_cleanup (before_cleanup env b2) vid,
                    [(TopicWriteValueSet, payload)]))))"

subsection \<open>handleWriteValueResp\<close>

text \<open>
  A send on a channel of capacity 1 goes through when the buffer is empty; with the
  buffer full the sender waits for a receiver: \<open>None\<close>.
\<close>

definition chan_send :: "Broker \<Rightarrow> nat \<Rightarrow> error option \<Rightarrow> Broker option" where
  "chan_send b c x =
    (if length (chanHeap b c) < 1 then Some (b\<lparr>chanHeap := (chanHeap b)(c := chanHeap b c @ [x])\<rparr>)
     else None)"

definition handleWriteValueResp :: "json \<Rightarrow> bytes \<Rightarrow> Broker \<Rightarrow> (error option \<times> Broker) option" where
  "handleWriteValueResp j payload b =
    (case WriteValueResp_UnmarshalJSON j payload of
       Inl e \<Rightarrow> Some (Some e, b)
     | Inr resp \<Rightarrow>
         (case setAttr b (wr_ValueID resp) of
            None \<Rightarrow> Some (None, b)
          | Some wait \<Rightarrow>
              (if \<not> wr_Success resp then
                 (let err = ErrWriteNotSuccessful (wr_Message resp) in
                  case chan_send b wait (Some err) of
                    None \<Rightarrow> None
                  | Some b' \<Rightarrow> Some (Some err, b'))
               else
                 (case chan_send b wait None of
                    None \<Rightarrow> None
                  | Some b' \<Rightarrow> Some (None, b')))))"

section \<open>Reading the broker and running it\<close>

text \<open>
  Reading the directory: the node that \<^verbatim>\<open>b.nodesByID[k]\<close> and \<^verbatim>\<open>b.nodesByName[name]\<close>
  point to, and the condition that every reference the directory holds has been
  allocated (is below \<open>nextRef\<close>).
\<close>

definition nodeByID :: "Broker \<Rightarrow> int \<Rightarrow> Node option" where
  "nodeByID b k = map_option (nodeHeap b) (nodesByID b k)"

definition nodeByName :: "Broker \<Rightarrow> string \<Rightarrow> Node option" where
  "nodeByName b name = map_option (nodeHeap b) (nodesByName b name)"

definition refs_below :: "Broker \<Rightarrow> bool" where
  "refs_below b \<longleftrightarrow>
     (\<forall>k r. nodesByID b k = Some r \<longrightarrow> r < nextRef b) \<and>
     (\<forall>name r. nodesByName b name = Some r \<longrightarrow> r < nextRef b)"

subsection \<open>Runs of the broker\<close>

text \<open>
  The critical sections above, as the operations other goroutines run on the broker
  in some order. An operation that returns an error, or that would wait, leaves the
  broker as it is. \<open>Cancel w v\<close> is a call of the cancel function \<open>(w, v)\<close>.
\<close>

datatype op =
    Watch string string nat
  | Cancel nat nat
  | GetNodesResp bytes
  | WriteValueResp bytes
  | NodeValueUpdated bytes
  | Register string string bytes
  | Select "ctx_error option" bool nat
  | Cleanup ValueID

fun step :: "json \<Rightarrow> op \<Rightarrow> Broker \<Rightarrow> Broker" where
  "step j (Watch nodeName property v) b =
     (case WatchValue b nodeName property v of Inl e \<Rightarrow> b | Inr (c, b') \<Rightarrow> b')"
| "step j (Cancel w v) b = run_cancel (w, v) b"
| "step j (GetNodesResp payload) b = snd (handleGetNodesResp j payload b)"
| "step j (WriteValueResp payload) b =
     (case handleWriteValueResp j payload b of None \<Rightarrow> b | Some (e, b') \<Rightarrow> b')"
| "step j (NodeValueUpdated payload) b = b"
| "step j (Register nodeName property x) b =
     (case SetAttr_register j b nodeName property x of Inl e \<Rightarrow> b | Inr (b', rest) \<Rightarrow> b')"
| "step j (Select done pick w) b =
     (case SetAttr_select done pick b w of None \<Rightarrow> b | Some (e, b') \<Rightarrow> b')"
| "step j (Cleanup vid) b = SetAttr_cleanup b vid"

fun run :: "json \<Rightarrow> op list \<Rightarrow> Broker \<Rightarrow> Broker" where
  "run j [] b = b"
| "run j (x # xs) b = run j xs (step j x b)"

text \<open>
  A node is live when one of the two directory maps points to it, and an inner
  watcher map is live when a live node holds it. In a broker that is \<open>broker_ok\<close>
  every live reference has been allocated. \<open>sinks_unwatched\<close> says that no live node
  has a watcher map, \<open>sink_only_in v W\<close> that the sink \<open>v\<close> is registered in no inner
  map outside \<open>W\<close>, and \<open>quiet\<close> marks the operations that leave the directory alone.
\<close>

definition live_node :: "Broker \<Rightarrow> nat \<Rightarrow> bool" where
  "live_node b r \<longleftrightarrow> (\<exists>k. nodesByID b k = Some r) \<or> (\<exists>name. nodesByName b name = Some r)"

definition live_watcher :: "Broker \<Rightarrow> nat \<Rightarrow> bool" where
  "live_watcher b w \<longleftrightarrow> (\<exists>r p. live_node b r \<and> valueWatchers (nodeHeap b r) p = Some w)"

definition broker_ok :: "Broker \<Rightarrow> bool" where
  "broker_ok b \<longleftrightarrow> refs_below b \<and> (\<forall>w. live_watcher b w \<longrightarrow> w < nextRef b)"

definition sinks_unwatched :: "Broker \<Rightarrow> bool" where
  "sinks_unwatched b \<longleftrightarrow> (\<forall>r. live_node b r \<longrightarrow> valueWatchers (nodeHeap b r) = Map.empty)"


definition quiet :: "op \<Rightarrow> bool" where
  "quiet x = (case x of Watch n p v \<Rightarrow> False | GetNodesResp payload \<Rightarrow> False | _ \<Rightarrow> True)"

section \<open>Example inputs\<close>

text \<open>
  A stand-in for encoding/json on a handful of inputs, used to run the definitions:
  it decodes the payloads listed and rejects every other one. In the payloads, \<open>ID\<close>
  abbreviates the identifier object \<open>vid_raw\<close> and \<open>NODE4\<close> the snapshot of the example
  device with the value 3.
\<close>

definition ex_value :: Value where
  "ex_value =
    \<lparr>v_ID = ''38-0-currentValue'', v_NodeID = 4, v_CommandClass = 38, v_Endpoint = 0,
     v_Property = \<lparr>s = ''currentValue'', i = 0\<rparr>, v_Type = ''number'', v_RawValue = []\<rparr>"

definition ex_node :: api_Node where
  "ex_node =
    \<lparr>n_ID = 4, n_Name = ''kitchen-light'', n_Failed = False,
     n_Values = [(''38-0-currentValue'', ex_value)]\<rparr>"

definition ex_vid :: ValueID where
  "ex_vid =
    \<lparr>vid_NodeID = 4, vid_CommandClass = 38, vid_Endpoint = 0, vid_Property = ''currentValue''\<rparr>"

definition bare_node :: "int \<Rightarrow> string \<Rightarrow> bool \<Rightarrow> api_Node" where
  "bare_node k name failed = \<lparr>n_ID = k, n_Name = name, n_Failed = failed, n_Values = []\<rparr>"

text \<open>The bootstrap response of the example scenario: one device named kitchen-light.\<close>

definition nodes_payload :: bytes where
  "nodes_payload = ''{\"success\":true,\"result\":[{\"id\":4,\"name\":\"kitchen-light\",\"failed\":false,\"values\":{\"38-0-currentValue\":{\"id\":\"38-0-currentValue\",\"nodeId\":4,\"commandClass\":38,\"endpoint\":0,\"property\":\"currentValue\",\"type\":\"number\"}}}]}''"

text \<open>A bootstrap response in which the second and the third device share a name.\<close>

definition dup_payload :: bytes where
  "dup_payload = ''{\"success\":true,\"result\":[{\"id\":1,\"name\":\"hall\"},{\"id\":2,\"name\":\"lamp\"},{\"id\":3,\"name\":\"lamp\"}]}''"

text \<open>A bootstrap response with a failed device, an unnamed one and a named one.\<close>

definition mixed_payload :: bytes where
  "mixed_payload = ''{\"success\":true,\"result\":[{\"id\":7,\"name\":\"attic\",\"failed\":true},{\"id\":8},{\"id\":9,\"name\":\"porch\"}]}''"

text \<open>Write acknowledgements for the value of the example device, and change notifications.\<close>

definition vid_raw :: bytes where
  "vid_raw = ''{\"nodeId\":4,\"commandClass\":38,\"endpoint\":0,\"property\":\"currentValue\"}''"

definition ack_ok_payload :: bytes where
  "ack_ok_payload = ''{\"success\":true,\"message\":\"ok\",\"args\":[ID,50]}''"

definition ack_failed_payload :: bytes where
  "ack_failed_payload = ''{\"success\":false,\"message\":\"X\",\"args\":[ID,50]}''"

definition update_payload :: bytes where
  "update_payload = ''{\"data\":[NODE4,{\"commandClass\":38,\"endpoint\":0,\"property\":\"currentValue\"}]}''"

definition stray_payload :: bytes where
  "stray_payload = ''{\"data\":[NODE4,{\"commandClass\":38,\"endpoint\":0,\"property\":\"targetValue\"}]}''"

definition dup_resp :: GetNodesResp where
  "dup_resp =
     \<lparr>gn_Success = True, gn_Message = [],
      gn_Result = [bare_node 1 ''hall'' False, bare_node 2 ''lamp'' False,
                   bare_node 3 ''lamp'' False]\<rparr>"

definition mixed_resp :: GetNodesResp where
  "mixed_resp =
     \<lparr>gn_Success = True, gn_Message = [],
      gn_Result = [bare_node 7 ''attic'' True, bare_node 8 [] False,
                   bare_node 9 ''porch'' False]\<rparr>"

definition json_fail :: "bytes \<Rightarrow> json_error + 'a" where
  "json_fail b = Inl (JsonError ''invalid input'')"

definition ex_json :: json where
  "ex_json =
    \<lparr>unmarshal_int = (\<lambda>b. if b = ''50'' then Inr 50 else if b = ''3'' then Inr 3 else json_fail b),
     unmarshal_bool = (\<lambda>b. if b = ''true'' then Inr True else json_fail b),
     unmarshal_string = (\<lambda>b. if b = ''\"red\"'' then Inr ''red'' else json_fail b),
     unmarshal_unit = (\<lambda>b. if b = ''{\"unit\":\"seconds\"}'' then Inr ''seconds''
                             else if b = ''{\"unit\":\"minutes\"}'' then Inr ''minutes''
                             else if b = ''{\"unit\":\"default\"}'' then Inr ''default''
                             else json_fail b),
     unmarshal_GetNodesResp =
       (\<lambda>b. if b = nodes_payload
             then Inr \<lparr>gn_Success = True, gn_Message = [], gn_Result = [ex_node]\<rparr>
             else if b = dup_payload then Inr dup_resp
             else if b = mixed_payload then Inr mixed_resp
             else json_fail b),
     unmarshal_resp_obj =
       (\<lambda>b. if b = ack_ok_payload
             then Inr \<lparr>o_Success = True, o_Message = ''ok'', o_Args = [vid_raw, ''50'']\<rparr>
             else if b = ack_failed_payload
             then Inr \<lparr>o_Success = False, o_Message = ''X'', o_Args = [vid_raw, ''50'']\<rparr>
             else json_fail b),
     unmarshal_ValueID = (\<lambda>b. if b = vid_raw then Inr ex_vid else json_fail b),
     unmarshal_data_obj =
       (\<lambda>b. if b = update_payload
             then Inr [''NODE4'', ''{\"commandClass\":38,\"endpoint\":0,\"property\":\"currentValue\"}'']
             else if b = stray_payload
             then Inr [''NODE4'', ''{\"commandClass\":38,\"endpoint\":0,\"property\":\"targetValue\"}'']
             else json_fail b),
     unmarshal_Node =
       (\<lambda>b. if b = ''NODE4''
             then Inr (ex_node\<lparr>n_Values := [(''38-0-currentValue'', ex_value\<lparr>v_RawValue := ''3''\<rparr>)]\<rparr>)
             else json_fail b),
     unmarshal_update_obj =
       (\<lambda>b. if b = ''{\"commandClass\":38,\"endpoint\":0,\"property\":\"currentValue\"}''
             then Inr \<lparr>u_CommandClass = 38, u_Endpoint = 0,
                       u_Property = \<lparr>s = ''currentValue'', i = 0\<rparr>, u_PropertyKey = []\<rparr>
             else if b = ''{\"commandClass\":38,\"endpoint\":0,\"property\":\"targetValue\"}''
             then Inr \<lparr>u_CommandClass = 38, u_Endpoint = 0,
                       u_Property = \<lparr>s = ''targetValue'', i = 0\<rparr>, u_PropertyKey = []\<rparr>
             else json_fail b),
     marshal_APIArgs = (\<lambda>a. Inr (''{\"args\":[ID,'' @ snd a @ '']}''))\<rparr>"

text \<open>The broker after the bootstrap of the example scenario.\<close>

definition ex_broker :: Broker where
  "ex_broker = snd (handleGetNodesResp ex_json nodes_payload NewBroker)"

text \<open>A call that meets no other goroutine and whose context is not done.\<close>

definition quiet_env :: call_env where
  "quiet_env = \<lparr>pub = None, during = (\<lambda>b. b), before_cleanup = (\<lambda>b. b),
                ctx_done = None, pick_ctx = False\<rparr>"

definition typed_value :: "string \<Rightarrow> bytes \<Rightarrow> Value" where
  "typed_value t raw =
    \<lparr>v_ID = ''38-0-currentValue'', v_NodeID = 4, v_CommandClass = 38, v_Endpoint = 0,
     v_Property = \<lparr>s = ''currentValue'', i = 0\<rparr>, v_Type = t, v_RawValue = raw\<rparr>"

text \<open>
  A call whose acknowledgement \<open>payload\<close> is handled while it waits.
\<close>

definition ack_env :: "bytes \<Rightarrow> call_env" where
  "ack_env payload =
     quiet_env\<lparr>during := (\<lambda>b. case handleWriteValueResp ex_json payload b of
                                 None \<Rightarrow> b | Some (r, b') \<Rightarrow> b')\<rparr>"




text \<open>
  The example broker after the first critical section of a call for currentValue.
\<close>

definition ex_registered :: Broker where
  "ex_registered =
     ex_broker\<lparr>chanHeap := (chanHeap ex_broker)(Suc 0 := []),
               setAttr := [ex_vid \<mapsto> Suc 0], nextRef := Suc (Suc 0)\<rparr>"


text \<open>
  The example broker with sink 7 watching currentValue, and the broker after a second
  bootstrap and a second registration of the same sink.
\<close>

definition ex_watched :: Broker where
  "ex_watched =
     ex_broker\<lparr>watcherHeap := (watcherHeap ex_broker)(Suc 0 := {7}),
               nodeHeap := (nodeHeap ex_broker)
                 (0 := (nodeHeap ex_broker 0)\<lparr>valueWatchers := [''currentValue'' \<mapsto> Suc 0]\<rparr>),
               nextRef := Suc (Suc 0)\<rparr>"


section \<open>Properties\<close>

lemmas type_consts =
  TypeNumber_def TypeBool_def TypeString_def TypeListNumber_def TypeListBool_def
  TypeListString_def TypeDuration_def TypeColor_def TypeAny_def
  DurationSeconds_def DurationMinutes_def

subsection \<open>Value decoding\<close>



text \<open>
  C10. For a value whose declared type is one of the list types \<open>number[]\<close>,
  \<open>boolean[]\<close> and \<open>string[]\<close>, \<open>Value_Value\<close> returns the unknown-value-type error,
  whatever the payload and the decoder.
\<close>

theorem list_types_unknown:
  "v_Type v \<in> {TypeListNumber, TypeListBool, TypeListString} \<Longrightarrow>
     Value_Value j v = Inl (ErrUnknownValueType (v_Type v))"
  by (auto simp: Value_Value_def type_consts)

theorem list_types_unknown_witness:
  "Value_Value ex_json (typed_value ''number[]'' ''[1,2]'') = Inl (ErrUnknownValueType ''number[]'') \<and>
   Value_Value ex_json (typed_value ''boolean[]'' ''[true]'') = Inl (ErrUnknownValueType ''boolean[]'') \<and>
   Value_Value ex_json (typed_value ''string[]'' '''') = Inl (ErrUnknownValueType ''string[]'')"
  using list_types_unknown [of "typed_value ''number[]'' ''[1,2]''" ex_json]
    list_types_unknown [of "typed_value ''boolean[]'' ''[true]''" ex_json]
    list_types_unknown [of "typed_value ''string[]'' ''''" ex_json]
  by (simp add: typed_value_def type_consts)

subsection \<open>The example inputs\<close>

lemmas payload_defs = nodes_payload_def dup_payload_def mixed_payload_def
  ack_ok_payload_def ack_failed_payload_def update_payload_def stray_payload_def vid_raw_def

lemma ex_value_property: "StringInt_String (v_Property ex_value) = ''currentValue''"
  by (simp add: ex_value_def StringInt_String_def)

lemma newNode_ex_node:
  "newNode ex_node =
     \<lparr>node = ex_node, valuesByProperty = [''currentValue'' \<mapsto> ex_value],
      valuesByID = [''38-0-currentValue'' \<mapsto> ex_value], valueWatchers = Map.empty\<rparr>"
  by (simp add: newNode_def ex_node_def ex_value_property) (simp add: ex_value_def)

lemma ex_broker_eq:
  "ex_broker =
     NewBroker\<lparr>nodeHeap := (nodeHeap NewBroker)(0 := newNode ex_node),
               nodesByName := [''kitchen-light'' \<mapsto> 0],
               nodesByID := [4 \<mapsto> 0],
               nextRef := Suc 0\<rparr>"
  by (simp add: ex_broker_def handleGetNodesResp_def ex_json_def clear_nodes_def store_node_def)
     (simp add: NewBroker_def ex_node_def)

lemma ex_write: "Value_WriteValue ex_value x = (ex_vid, x)"
  by (simp add: Value_WriteValue_def ex_value_def ex_vid_def StringInt_String_def)

lemma ex_lookup:
  "nodesByName ex_broker ''kitchen-light'' = Some 0"
  "nodesByName ex_broker ''porch'' = None"
  "valuesByProperty (nodeHeap ex_broker 0) ''currentValue'' = Some ex_value"
  "valuesByProperty (nodeHeap ex_broker 0) ''targetValue'' = None"
  "nextRef ex_broker = Suc 0"
  "setAttr ex_broker = Map.empty"
  by (simp_all add: ex_broker_eq newNode_ex_node NewBroker_def)

lemma ex_register:
  "SetAttr_register ex_json ex_broker ''kitchen-light'' ''currentValue'' x =
     Inr (ex_broker\<lparr>chanHeap := (chanHeap ex_broker)(Suc 0 := []),
                     setAttr := [ex_vid \<mapsto> Suc 0], nextRef := Suc (Suc 0)\<rparr>,
          ex_vid, ''{\"args\":[ID,'' @ x @ '']}'', Suc 0)"
  by (simp add: SetAttr_register_def ex_lookup ex_write ex_json_def Let_def)

lemma ex_acks:
  "WriteValueResp_UnmarshalJSON ex_json ack_ok_payload =
     Inr \<lparr>wr_Success = True, wr_Message = ''ok'', wr_ValueID = ex_vid, wr_Value = ''50''\<rparr>"
  "WriteValueResp_UnmarshalJSON ex_json ack_failed_payload =
     Inr \<lparr>wr_Success = False, wr_Message = ''X'', wr_ValueID = ex_vid, wr_Value = ''50''\<rparr>"
  by (simp_all add: WriteValueResp_UnmarshalJSON_def ex_json_def ack_ok_payload_def
        ack_failed_payload_def)

lemma ex_registered_lookup:
  "nodesByName ex_registered ''kitchen-light'' = Some 0"
  "valuesByProperty (nodeHeap ex_registered 0) ''currentValue'' = Some ex_value"
  "nextRef ex_registered = Suc (Suc 0)"
  "setAttr ex_registered ex_vid = Some (Suc 0)"
  "chanHeap ex_registered (Suc 0) = []"
  by (simp_all add: ex_registered_def ex_lookup)

lemma ex_register': 
  "SetAttr_register ex_json ex_broker ''kitchen-light'' ''currentValue'' x =
     Inr (ex_registered, ex_vid, ''{\"args\":[ID,'' @ x @ '']}'', Suc 0)"
  by (simp add: ex_register ex_registered_def)

lemma ex_handle:
  "handleWriteValueResp ex_json ack_ok_payload ex_registered =
     Some (None, ex_registered\<lparr>chanHeap := (chanHeap ex_registered)(Suc 0 := [None])\<rparr>)"
  "handleWriteValueResp ex_json ack_failed_payload ex_registered =
     Some (Some (ErrWriteNotSuccessful ''X''),
           ex_registered\<lparr>chanHeap := (chanHeap ex_registered)
                            (Suc 0 := [Some (ErrWriteNotSuccessful ''X'')])\<rparr>)"
  by (simp_all add: handleWriteValueResp_def ex_acks ex_registered_lookup chan_send_def Let_def)


subsection \<open>SetAttr\<close>

text \<open>
  C5. A call of \<open>SetAttr\<close> with a node name that is not in the directory, or with a
  property that the node found does not have, returns the not-found error of that
  case, leaves the broker as it was and makes no call of \<^verbatim>\<open>Publish\<close>.
\<close>

theorem SetAttr_not_found:
  "(nodesByName b nodeName = None \<longrightarrow>
      SetAttr j env b nodeName property value = (Some (Some (ErrNodeNotFound nodeName)), b, [])) \<and>
   (\<forall>r. nodesByName b nodeName = Some r \<and> valuesByProperty (nodeHeap b r) property = None \<longrightarrow>
      SetAttr j env b nodeName property value =
        (Some (Some (ErrNoAttribute nodeName property)), b, []))"
  by (simp add: SetAttr_def SetAttr_register_def)

theorem SetAttr_not_found_witness:
  "SetAttr ex_json quiet_env ex_broker ''porch'' ''currentValue'' ''50'' =
     (Some (Some (ErrNodeNotFound ''porch'')), ex_broker, []) \<and>
   SetAttr ex_json quiet_env ex_broker ''kitchen-light'' ''targetValue'' ''50'' =
     (Some (Some (ErrNoAttribute ''kitchen-light'' ''targetValue'')), ex_broker, [])"
  using SetAttr_not_found [of ex_broker "''porch''" ex_json quiet_env "''currentValue''" "''50''"]
    SetAttr_not_found [of ex_broker "''kitchen-light''" ex_json quiet_env "''targetValue''" "''50''"]
  by (simp add: ex_lookup)

lemma SetAttr_register_slot:
  assumes "SetAttr_register j b nodeName property value = Inr (b1, vid, p, wait)"
  shows "setAttr b1 vid = Some wait" and "chanHeap b1 wait = []"
  using assms
  by (auto simp: SetAttr_register_def Let_def split: option.splits sum.splits)

text \<open>
  C6. A call has registered its channel and published, and its context is not done.
  When the acknowledgement for its key is handled while it waits, the call returns
  \<^verbatim>\<open>nil\<close> if the acknowledgement says success, and otherwise the error that carries
  the acknowledgement's message.
\<close>

theorem ack_unblocks_call:
  assumes "SetAttr_register j b nodeName property value = Inr (b1, vid, p, wait)"
    and "WriteValueResp_UnmarshalJSON j payload = Inr resp"
    and "wr_ValueID resp = vid"
    and "pub env = None" and "ctx_done env = None"
    and "handleWriteValueResp j payload b1 = Some (r, b2)"
    and "during env b1 = b2"
  shows "r = (if wr_Success resp then None else Some (ErrWriteNotSuccessful (wr_Message resp))) \<and>
         fst (SetAttr j env b nodeName property value) = Some r"
proof -
  have slot: "setAttr b1 (wr_ValueID resp) = Some wait" "chanHeap b1 wait = []"
    using SetAttr_register_slot [OF assms(1)] assms(3) by simp_all
  have r: "r = (if wr_Success resp then None else Some (ErrWriteNotSuccessful (wr_Message resp)))"
    and b2: "chanHeap b2 wait = [r]"
    using assms(6) assms(2) slot
    by (auto simp: handleWriteValueResp_def chan_send_def Let_def split: if_splits)
  have "fst (SetAttr j env b nodeName property value) = Some r"
    using assms(1,4,5,7) b2 by (simp add: SetAttr_def SetAttr_select_def)
  with r show ?thesis by simp
qed

theorem ack_unblocks_call_witness:
  "fst (SetAttr ex_json (ack_env ack_ok_payload) ex_broker ''kitchen-light'' ''currentValue'' ''50'')
     = Some None \<and>
   fst (SetAttr ex_json (ack_env ack_failed_payload) ex_broker ''kitchen-light'' ''currentValue'' ''50'')
     = Some (Some (ErrWriteNotSuccessful ''X''))"
  using ack_unblocks_call [OF ex_register' ex_acks(1), of "ack_env ack_ok_payload" None
      "ex_registered\<lparr>chanHeap := (chanHeap ex_registered)(Suc 0 := [None])\<rparr>"]
    ack_unblocks_call [OF ex_register' ex_acks(2), of "ack_env ack_failed_payload"
      "Some (ErrWriteNotSuccessful ''X'')"
      "ex_registered\<lparr>chanHeap := (chanHeap ex_registered)
                            (Suc 0 := [Some (ErrWriteNotSuccessful ''X'')])\<rparr>"]
  by (simp add: ack_env_def quiet_env_def ex_handle)




subsection \<open>Write acknowledgements\<close>







subsection \<open>The bootstrap\<close>


lemma fill_values_node [simp]:
  "node (fill_values vs nd) = node nd" "valueWatchers (fill_values vs nd) = valueWatchers nd"
  by (induction vs nd rule: fill_values.induct) simp_all

lemma newNode_simps [simp]: "node (newNode n) = n" "valueWatchers (newNode n) = Map.empty"
  by (simp_all add: newNode_def)

lemma store_node_refs_below: "refs_below b \<Longrightarrow> refs_below (store_node b n)"
  by (auto simp: refs_below_def store_node_def less_Suc_eq split: if_splits)



lemma install_nodes_refs_below:
  "refs_below b \<Longrightarrow> refs_below (snd (install_nodes b ns))"
  by (induction ns arbitrary: b) (simp_all add: store_node_refs_below)



lemma clear_nodes_refs_below: "refs_below (clear_nodes b)"
  by (simp add: refs_below_def clear_nodes_def)

lemma clear_nodes_lookup [simp]:
  "nodeByID (clear_nodes b) k = None" "nodeByName (clear_nodes b) name = None"
  "nodesByName (clear_nodes b) name = None"
  by (simp_all add: nodeByID_def nodeByName_def clear_nodes_def)









subsection \<open>A bootstrap that meets a duplicate name\<close>









subsection \<open>Invariants of the directory\<close>

lemma refs_below_live: "refs_below b \<longleftrightarrow> (\<forall>r. live_node b r \<longrightarrow> r < nextRef b)"
  by (auto simp: refs_below_def live_node_def)

lemma NewBroker_ok: "broker_ok NewBroker"
  by (simp add: broker_ok_def refs_below_def live_watcher_def live_node_def NewBroker_def)

lemma unwatched_no_watcher: "sinks_unwatched b \<Longrightarrow> \<not> live_watcher b w"
  by (auto simp: sinks_unwatched_def live_watcher_def)

lemma clear_nodes_unwatched: "sinks_unwatched (clear_nodes b)"
  by (simp add: sinks_unwatched_def live_node_def clear_nodes_def)

lemma store_node_live:
  "live_node (store_node b n) r \<Longrightarrow> r = nextRef b \<or> live_node b r"
  by (auto simp: live_node_def store_node_def split: if_splits)

lemma store_node_unwatched:
  assumes "refs_below b" "sinks_unwatched b"
  shows "sinks_unwatched (store_node b n)"
  unfolding sinks_unwatched_def
proof (intro allI impI)
  fix r assume "live_node (store_node b n) r"
  then consider "r = nextRef b" | "live_node b r" "r \<noteq> nextRef b"
    using store_node_live by blast
  then show "valueWatchers (nodeHeap (store_node b n) r) = Map.empty"
  proof cases
    case 1
    then show ?thesis by (simp add: store_node_def)
  next
    case 2
    with assms(2) show ?thesis by (simp add: store_node_def sinks_unwatched_def)
  qed
qed

lemma install_nodes_unwatched:
  "refs_below b \<Longrightarrow> sinks_unwatched b \<Longrightarrow> sinks_unwatched (snd (install_nodes b ns))"
  by (induction ns arbitrary: b) (simp_all add: store_node_unwatched store_node_refs_below)

lemma install_nodes_nextRef: "nextRef b \<le> nextRef (snd (install_nodes b ns))"
proof (induction ns arbitrary: b)
  case Nil
  then show ?case by simp
next
  case (Cons n ns)
  have "nextRef b \<le> nextRef (store_node b n)" by (simp add: store_node_def)
  also have "\<dots> \<le> nextRef (snd (install_nodes (store_node b n) ns))" by (rule Cons.IH)
  finally show ?case using Cons.IH [of b] by simp
qed

lemma bootstrap_unwatched:
  assumes "unmarshal_GetNodesResp j payload = Inr resp" "gn_Success resp"
  shows "sinks_unwatched (snd (handleGetNodesResp j payload b))"
    and "refs_below (snd (handleGetNodesResp j payload b))"
    and "nextRef b \<le> nextRef (snd (handleGetNodesResp j payload b))"
proof -
  have run: "handleGetNodesResp j payload b = install_nodes (clear_nodes b) (gn_Result resp)"
    using assms by (simp add: handleGetNodesResp_def)
  show "sinks_unwatched (snd (handleGetNodesResp j payload b))"
    unfolding run by (rule install_nodes_unwatched [OF clear_nodes_refs_below clear_nodes_unwatched])
  show "refs_below (snd (handleGetNodesResp j payload b))"
    unfolding run by (rule install_nodes_refs_below [OF clear_nodes_refs_below])
  have "nextRef (clear_nodes b) \<le> nextRef (snd (install_nodes (clear_nodes b) (gn_Result resp)))"
    by (rule install_nodes_nextRef)
  then show "nextRef b \<le> nextRef (snd (handleGetNodesResp j payload b))"
    unfolding run by (simp add: clear_nodes_def)
qed

lemma WatchValue_cases:
  assumes "WatchValue b nodeName property v = Inr (c, b1)"
  obtains (existing) r where "nodesByName b nodeName = Some r"
      "valueWatchers (nodeHeap b r) property = Some (fst c)" "snd c = v"
      "b1 = b\<lparr>watcherHeap := (watcherHeap b)(fst c := insert v (watcherHeap b (fst c)))\<rparr>"
  | (fresh) r where "nodesByName b nodeName = Some r"
      "valueWatchers (nodeHeap b r) property = None" "fst c = nextRef b" "snd c = v"
      "b1 = b\<lparr>watcherHeap := (watcherHeap b)(nextRef b := {v}),
               nodeHeap := (nodeHeap b)
                 (r := (nodeHeap b r)\<lparr>valueWatchers :=
                         (valueWatchers (nodeHeap b r))(property \<mapsto> nextRef b)\<rparr>),
               nextRef := Suc (nextRef b)\<rparr>"
  using assms
  by (auto simp: WatchValue_def Let_def split: option.splits if_splits)

lemma WatchValue_ok:
  assumes ok: "broker_ok b" and w: "WatchValue b nodeName property v = Inr (c, b1)"
  shows "broker_ok b1" and "nextRef b \<le> nextRef b1" and "snd c = v"
    and "fst c < nextRef b1" and "v \<in> watcherHeap b1 (fst c)"
    and "\<And>w. live_watcher b1 w \<Longrightarrow>
           live_watcher b w \<or> w = nextRef b \<and> nextRef b1 = Suc (nextRef b)"
    and "nodesByID b1 = nodesByID b" and "nodesByName b1 = nodesByName b"
proof -
  from w show "snd c = v" by (cases rule: WatchValue_cases) auto
  from w show "nextRef b \<le> nextRef b1" by (cases rule: WatchValue_cases) auto
  from w show "v \<in> watcherHeap b1 (fst c)" by (cases rule: WatchValue_cases) auto
  from w show ids: "nodesByID b1 = nodesByID b" by (cases rule: WatchValue_cases) auto
  from w show names: "nodesByName b1 = nodesByName b" by (cases rule: WatchValue_cases) auto
  have nodes: "live_node b1 r = live_node b r" for r
    by (simp add: live_node_def ids names)
  show lw: "live_watcher b1 w \<Longrightarrow>
      live_watcher b w \<or> w = nextRef b \<and> nextRef b1 = Suc (nextRef b)" for w
    using w
  proof (cases rule: WatchValue_cases)
    case (existing r)
    assume "live_watcher b1 w"
    then show ?thesis using existing(4) nodes by (auto simp: live_watcher_def)
  next
    case (fresh r)
    assume "live_watcher b1 w"
    then obtain r' p where "live_node b r'" "valueWatchers (nodeHeap b1 r') p = Some w"
      using nodes by (auto simp: live_watcher_def)
    then show ?thesis using fresh(5)
      by (cases "r' = r"; cases "p = property") (auto simp: live_watcher_def)
  qed
  from w show "fst c < nextRef b1"
  proof (cases rule: WatchValue_cases)
    case (existing r)
    then have "live_watcher b (fst c)"
      by (auto simp: live_watcher_def live_node_def)
    with ok existing(4) show ?thesis by (simp add: broker_ok_def)
  next
    case (fresh r)
    then show ?thesis by simp
  qed
  have "refs_below b1"
    using ok \<open>nextRef b \<le> nextRef b1\<close>
    by (fastforce simp: broker_ok_def refs_below_def ids names)
  moreover have "w < nextRef b1" if "live_watcher b1 w" for w
    using lw [OF that] ok \<open>nextRef b \<le> nextRef b1\<close>
    by (auto simp: broker_ok_def)
  ultimately show "broker_ok b1" by (simp add: broker_ok_def)
qed

lemma quiet_step:
  assumes "quiet x"
  shows "nodesByID (step j x b) = nodesByID b" and "nodesByName (step j x b) = nodesByName b"
    and "nodeHeap (step j x b) = nodeHeap b" and "nextRef b \<le> nextRef (step j x b)"
    and "watcherHeap (step j x b) w \<subseteq> watcherHeap b w"
  using assms
  by (cases x;
      auto simp: quiet_def run_cancel_def handleWriteValueResp_def chan_send_def
        SetAttr_register_def SetAttr_select_def SetAttr_cleanup_def Let_def
        split: option.splits sum.splits list.splits if_splits)+

lemma broker_ok_frame:
  assumes "broker_ok b" "nodesByID b' = nodesByID b" "nodesByName b' = nodesByName b"
    "nodeHeap b' = nodeHeap b" "nextRef b \<le> nextRef b'"
  shows "broker_ok b'" and "live_watcher b' w = live_watcher b w"
proof -
  show lw: "live_watcher b' w = live_watcher b w" for w
    using assms(2-4) by (simp add: live_watcher_def live_node_def)
  have "refs_below b'"
    using assms by (fastforce simp: broker_ok_def refs_below_def)
  moreover have "w < nextRef b'" if "live_watcher b' w" for w
    using that assms(1,5) by (fastforce simp: lw broker_ok_def)
  ultimately show "broker_ok b'" by (simp add: broker_ok_def)
qed

lemma bootstrap_step:
  "step j (GetNodesResp payload) b = b \<or>
   (\<exists>resp. unmarshal_GetNodesResp j payload = Inr resp \<and> gn_Success resp)"
  by (cases "unmarshal_GetNodesResp j payload") (auto simp: handleGetNodesResp_def)

lemma step_ok:
  assumes "broker_ok b"
  shows "broker_ok (step j x b)" and "nextRef b \<le> nextRef (step j x b)"
proof -
  have "broker_ok (step j x b) \<and> nextRef b \<le> nextRef (step j x b)"
  proof (cases "quiet x")
    case True
    from broker_ok_frame(1) [OF assms quiet_step(1-4) [OF True]] quiet_step(4) [OF True]
    show ?thesis by simp
  next
    case False
    then consider n p v where "x = Watch n p v" | payload where "x = GetNodesResp payload"
      by (cases x) (auto simp: quiet_def)
    then show ?thesis
    proof cases
      case 1
      show ?thesis
      proof (cases "WatchValue b n p v")
        case (Inl e)
        with 1 assms show ?thesis by simp
      next
        case (Inr res)
        then obtain c b1 where "WatchValue b n p v = Inr (c, b1)" by (cases res) auto
        with WatchValue_ok(1,2) [OF assms this] 1 show ?thesis by simp
      qed
    next
      case 2
      from bootstrap_step [of j payload b] show ?thesis
      proof
        assume "step j (GetNodesResp payload) b = b"
        with 2 assms show ?thesis by simp
      next
        assume "\<exists>resp. unmarshal_GetNodesResp j payload = Inr resp \<and> gn_Success resp"
        then obtain resp where r: "unmarshal_GetNodesResp j payload = Inr resp" "gn_Success resp"
          by blast
        from bootstrap_unwatched [OF r, of b] 2 show ?thesis
          by (simp add: broker_ok_def unwatched_no_watcher)
      qed
    qed
  qed
  then show "broker_ok (step j x b)" and "nextRef b \<le> nextRef (step j x b)" by simp_all
qed


lemma run_ok:
  "broker_ok b \<Longrightarrow> broker_ok (run j xs b) \<and> nextRef b \<le> nextRef (run j xs b)"
proof (induction xs arbitrary: b)
  case Nil
  then show ?case by simp
next
  case (Cons x xs)
  from step_ok [OF Cons.prems, of j x] Cons.IH [of "step j x b"]
  show ?case by auto
qed

lemma reachable_ok: "broker_ok (run j xs NewBroker)"
  using run_ok [OF NewBroker_ok] by simp











lemma ex_update:
  "NodeValueUpdate_UnmarshalJSON ex_json update_payload = Inr (ex_value\<lparr>v_RawValue := ''3''\<rparr>)"
  "Value_Value ex_json (ex_value\<lparr>v_RawValue := ''3''\<rparr>) = Inr (VInt 3)"
  by (simp_all add: NodeValueUpdate_UnmarshalJSON_def ex_json_def payload_defs ex_node_def
      update_id_def Itoa_def nat_digits.simps digit_char_def StringInt_String_def
      Value_Value_def ex_value_def type_consts)

lemma ex_update_fields:
  "v_NodeID (ex_value\<lparr>v_RawValue := ''3''\<rparr>) = 4"
  "StringInt_String (v_Property (ex_value\<lparr>v_RawValue := ''3''\<rparr>)) = ''currentValue''"
  by (simp_all add: ex_value_def StringInt_String_def)






subsection \<open>Watching and cancelling\<close>



subsection \<open>Change notifications\<close>

lemma ex_stray:
  "unmarshal_data_obj ex_json stray_payload =
     Inr [''NODE4'', ''{\"commandClass\":38,\"endpoint\":0,\"property\":\"targetValue\"}'']"
  "unmarshal_Node ex_json ''NODE4'' =
     Inr (ex_node\<lparr>n_Values := [(''38-0-currentValue'', ex_value\<lparr>v_RawValue := ''3''\<rparr>)]\<rparr>)"
  "unmarshal_update_obj ex_json ''{\"commandClass\":38,\"endpoint\":0,\"property\":\"targetValue\"}'' =
     Inr \<lparr>u_CommandClass = 38, u_Endpoint = 0,
          u_Property = \<lparr>s = ''targetValue'', i = 0\<rparr>, u_PropertyKey = []\<rparr>"
  "update_id \<lparr>u_CommandClass = 38, u_Endpoint = 0,
          u_Property = \<lparr>s = ''targetValue'', i = 0\<rparr>, u_PropertyKey = []\<rparr> = ''38-0-targetValue''"
  by (simp_all add: ex_json_def payload_defs update_id_def Itoa_def nat_digits.simps
      digit_char_def StringInt_String_def)

text \<open>
  C9, as the claim states it, fails in its second half. The notification for the
  example device (id 4) decodes, and its value decodes, but the broker has no device
  with id 4: the handler returns \<^verbatim>\<open>nil\<close>, not an error, and delivers nothing.
\<close>

theorem unknown_device_counterexample:
  "nodesByID NewBroker 4 = None \<and>
   NodeValueUpdate_UnmarshalJSON ex_json update_payload = Inr (ex_value\<lparr>v_RawValue := ''3''\<rparr>) \<and>
   v_NodeID (ex_value\<lparr>v_RawValue := ''3''\<rparr>) = 4 \<and>
   handleNodeValueUpdated ex_json (\<lambda>c. True) update_payload NewBroker = Inr {}"
  by (simp add: handleNodeValueUpdated_def ex_update ex_update_fields) (simp add: NewBroker_def)

text \<open>
  C9, amended. When the identifier derived from the delta (command class, endpoint and
  property joined by dashes, with the property key appended after a dash when it is
  not empty) matches no value of the snapshot, the handler fails with the error that
  names the identifier. When the notification and its value decode and the device id
  is not in the directory, the handler returns \<^verbatim>\<open>nil\<close> and delivers nothing.
\<close>

theorem update_not_found:
  "(\<forall>d0 d1 nd u.
      unmarshal_data_obj j payload = Inr [d0, d1] \<and> unmarshal_Node j d0 = Inr nd \<and>
      unmarshal_update_obj j d1 = Inr u \<and> map_of (n_Values nd) (update_id u) = None \<longrightarrow>
      handleNodeValueUpdated j ready payload b = Inl (ErrUpdateValueNotFound (update_id u))) \<and>
   (\<forall>u. update_id u =
      Itoa (u_CommandClass u) @ ''-'' @ Itoa (u_Endpoint u) @ ''-'' @
      StringInt_String (u_Property u) @
      (if u_PropertyKey u = [] then [] else ''-'' @ u_PropertyKey u)) \<and>
   (\<forall>upd x.
      NodeValueUpdate_UnmarshalJSON j payload = Inr upd \<and> Value_Value j upd = Inr x \<and>
      nodesByID b (v_NodeID upd) = None \<longrightarrow>
      handleNodeValueUpdated j ready payload b = Inr {})"
  by (simp add: handleNodeValueUpdated_def NodeValueUpdate_UnmarshalJSON_def update_id_def Let_def)

theorem update_not_found_witness:
  "handleNodeValueUpdated ex_json (\<lambda>c. True) stray_payload ex_watched =
     Inl (ErrUpdateValueNotFound ''38-0-targetValue'') \<and>
   nodesByID NewBroker 4 = None \<and>
   handleNodeValueUpdated ex_json (\<lambda>c. True) update_payload NewBroker = Inr {}"
proof -
  note T = update_not_found [of ex_json stray_payload "\<lambda>c. True" ex_watched]
  note U = update_not_found [of ex_json update_payload "\<lambda>c. True" NewBroker]
  have none: "nodesByID NewBroker 4 = None" by (simp add: NewBroker_def)
  from T ex_stray have a: "handleNodeValueUpdated ex_json (\<lambda>c. True) stray_payload ex_watched =
      Inl (ErrUpdateValueNotFound ''38-0-targetValue'')"
    by (simp add: ex_node_def)
  from U ex_update none have b: "handleNodeValueUpdated ex_json (\<lambda>c. True) update_payload NewBroker = Inr {}"
    by (simp add: ex_update_fields)
  from a b none show ?thesis by simp
qed

end
